theory Spec2Isabelle
  imports Main "HOL-Library.Option_ord"
begin

section \<open>Data model\<close>

text \<open>
  The two tables of the registry, as the drizzle schema declares them
  (\<^verbatim>\<open>models/pipe.model.ts\<close>, \<^verbatim>\<open>models/version.model.ts\<close>). Ids come from a
  \<^verbatim>\<open>serial\<close> column, timestamps are milliseconds, \<^verbatim>\<open>description\<close> is the only
  nullable column, \<^verbatim>\<open>envSchema\<close> is stored verbatim. Field names carry a prefix where
  both rows have a field of the same name.
\<close>

record Pipe =
  p_id :: int
  p_name :: string
  p_description :: "string option"
  p_createdAt :: int
  p_updatedAt :: int

record Version =
  v_id :: int
  pipeId :: int
  versionNumber :: string
  assetUrl :: string
  v_createdAt :: int
  v_updatedAt :: int
  envSchema :: string

text \<open>The insert models and DTOs of \<^verbatim>\<open>types/pipe.ts\<close> and \<^verbatim>\<open>types/version.ts\<close>.\<close>

record NewPipe =
  np_name :: string
  np_description :: "string option"
  np_createdAt :: int
  np_updatedAt :: int

record CreateVersionDTO =
  cv_pipeId :: int
  cv_versionNumber :: string
  cv_assetUrl :: string
  cv_envSchema :: string

record NewVersion =
  nv_pipeId :: int
  nv_versionNumber :: string
  nv_assetUrl :: string
  nv_envSchema :: string
  nv_createdAt :: int
  nv_updatedAt :: int

text \<open>
  Every \<^verbatim>\<open>throw\<close> is a value: \<^verbatim>\<open>new Error(message)\<close>, the \<^verbatim>\<open>TypeError\<close> of reading a
  property of \<^verbatim>\<open>undefined\<close>, and the database driver's error with its SQLSTATE code and
  the constraint (or message) it reports.
\<close>

datatype error =
    Error string
  | TypeError string
  | PostgresError string string

text \<open>The single and the double quote character.\<close>

definition sq :: string where
  "sq = [CHR 0x27]"


fun is_unique_violation :: "error \<Rightarrow> bool" where
  "is_unique_violation (PostgresError code c) = (code = ''23505'')"
| "is_unique_violation _ = False"

section \<open>Storage backend\<close>

text \<open>
  The state of the relational database: the rows of both tables in heap order and the
  last value of each \<^verbatim>\<open>serial\<close> sequence. A sequence value is consumed by an insert
  whether or not the insert succeeds.
\<close>

record database =
  pipes :: "Pipe list"
  versions :: "Version list"
  pipes_id_seq :: int
  versions_id_seq :: int

text \<open>
  Assignment to a \<^verbatim>\<open>varchar(n)\<close> column: a longer value is an error unless the excess
  characters are all spaces, in which case it is truncated.
\<close>

definition varchar :: "nat \<Rightarrow> string \<Rightarrow> error + string" where
  "varchar n s =
     (if length s \<le> n then Inr s
      else if list_all (\<lambda>c. c = CHR '' '') (drop n s) then Inr (take n s)
      else Inl (PostgresError ''22001'' ''value too long for type character varying''))"

text \<open>
  JavaScript truthiness of an optional string: \<^verbatim>\<open>undefined\<close> and \<^verbatim>\<open>''\<close> are falsy.
\<close>

definition truthy :: "string option \<Rightarrow> string option" where
  "truthy s = (case s of None \<Rightarrow> None | Some t \<Rightarrow> if t = [] then None else Some t)"

text \<open>
  \<^verbatim>\<open>ORDER BY key DESC\<close>: rows with equal keys stay in heap order (the database may
  return them in any order; the model fixes this one).
\<close>

definition orderBy_desc :: "('a \<Rightarrow> int) \<Rightarrow> 'a list \<Rightarrow> 'a list" where
  "orderBy_desc key rows = sort_key (\<lambda>r. - key r) rows"

text \<open>
  \<^verbatim>\<open>.limit(l).offset(o)\<close>: the query builder emits \<^verbatim>\<open>LIMIT\<close> only for a non-negative
  number and \<^verbatim>\<open>OFFSET\<close> only for a non-zero one; the database rejects a negative
  \<^verbatim>\<open>OFFSET\<close>.
\<close>

definition limit_offset :: "int \<Rightarrow> int \<Rightarrow> 'a list \<Rightarrow> error + 'a list" where
  "limit_offset l off rows =
     (if off < 0 then Inl (PostgresError ''2201X'' ''OFFSET must not be negative'')
      else (let rest = drop (nat off) rows in Inr (if l < 0 then rest else take (nat l) rest)))"

text \<open>
  \<^verbatim>\<open>ILIKE\<close>: \<^verbatim>\<open>%\<close> matches any run of characters, \<^verbatim>\<open>_\<close> any one character, a
  backslash takes the next pattern character literally; letters compare without case
  (ASCII only in this model). The patterns built here end in \<^verbatim>\<open>%\<close>, so the error of a
  pattern ending in a lone backslash does not arise.
\<close>

definition to_lower :: "char \<Rightarrow> char" where
  "to_lower c =
     (let n = (of_char c :: nat) in if 65 \<le> n \<and> n \<le> 90 then char_of (n + 32) else c)"

fun like :: "string \<Rightarrow> string \<Rightarrow> bool" where
  "like s [] = (s = [])"
| "like s (p # ps) =
     (if p = CHR ''%'' then
        (like s ps \<or> (case s of [] \<Rightarrow> False | c # t \<Rightarrow> like t (p # ps)))
      else if p = CHR ''_'' then
        (case s of [] \<Rightarrow> False | c # t \<Rightarrow> like t ps)
      else if p = CHR 0x5C then
        (case ps of
           [] \<Rightarrow> False
         | q # qs \<Rightarrow> (case s of [] \<Rightarrow> False | c # t \<Rightarrow> c = q \<and> like t qs))
      else (case s of [] \<Rightarrow> False | c # t \<Rightarrow> c = p \<and> like t ps))"

definition ilike :: "string \<Rightarrow> string \<Rightarrow> bool" where
  "ilike s pattern = like (map to_lower s) (map to_lower pattern)"

text \<open>
  \<^verbatim>\<open>or(ilike(pipes.name, `%${search}%`), ilike(pipes.description, `%${search}%`))\<close>; a
  \<^verbatim>\<open>NULL\<close> description matches nothing. The clause is attached only \<^verbatim>\<open>if (search)\<close>.
\<close>

definition search_matches :: "string \<Rightarrow> Pipe \<Rightarrow> bool" where
  "search_matches s p =
     (ilike (p_name p) (''%'' @ s @ ''%'')
      \<or> (case p_description p of None \<Rightarrow> False | Some d \<Rightarrow> ilike d (''%'' @ s @ ''%'')))"

definition where_search :: "string option \<Rightarrow> ('r \<Rightarrow> Pipe) \<Rightarrow> 'r list \<Rightarrow> 'r list" where
  "where_search search pipe_of rows =
     (case truthy search of
        None \<Rightarrow> rows
      | Some s \<Rightarrow> filter (\<lambda>r. search_matches s (pipe_of r)) rows)"

subsection \<open>Pipe repository\<close>

text \<open>\<^verbatim>\<open>db.insert(pipes).values(pipeData).returning()\<close>\<close>

definition pipeRepository_create :: "NewPipe \<Rightarrow> database \<Rightarrow> (error + Pipe) \<times> database" where
  "pipeRepository_create pipeData d =
     (let newId = pipes_id_seq d + 1;
          d1 = d\<lparr>pipes_id_seq := newId\<rparr>
      in case varchar 255 (np_name pipeData) of
           Inl e \<Rightarrow> (Inl e, d1)
         | Inr nm \<Rightarrow>
             if newId \<in> set (map p_id (pipes d)) then (Inl (PostgresError ''23505'' ''pipes_pkey''), d1)
             else
               (let pipe = \<lparr>p_id = newId, p_name = nm, p_description = np_description pipeData,
                             p_createdAt = np_createdAt pipeData, p_updatedAt = np_updatedAt pipeData\<rparr>
                in (Inr pipe, d1\<lparr>pipes := pipes d @ [pipe]\<rparr>)))"

text \<open>
  \<^verbatim>\<open>const [pipe] = await select().from(pipes).where(eq(pipes.id, id)); return pipe || null\<close>:
  the first matching row in heap order, and likewise by name. The id columns are
  \<^verbatim>\<open>serial\<close>, that is \<^verbatim>\<open>int4\<close>: the database rejects a query whose id parameter is
  outside the \<^verbatim>\<open>int4\<close> range (SQLSTATE 22003), and one whose text parameter holds a NUL
  character (SQLSTATE 22021). The lookups below model the queries the database accepts;
  \<open>int4\<close> and \<open>pg_text\<close> say which parameters those are.
\<close>

definition int4 :: "int \<Rightarrow> bool" where
  "int4 i = (- 2147483648 \<le> i \<and> i \<le> 2147483647)"

definition pg_text :: "string \<Rightarrow> bool" where
  "pg_text s = (CHR 0x00 \<notin> set s)"

definition pipeRepository_findById :: "int \<Rightarrow> database \<Rightarrow> Pipe option" where
  "pipeRepository_findById i d = find (\<lambda>p. p_id p = i) (pipes d)"

definition pipeRepository_findByName :: "string \<Rightarrow> database \<Rightarrow> Pipe option" where
  "pipeRepository_findByName name d = find (\<lambda>p. p_name p = name) (pipes d)"

record PipeQueryOptions =
  pq_page :: "int option"
  pq_limit :: "int option"
  pq_search :: "string option"
  pq_includeVersions :: "bool option"

record PipeWithVersions = Pipe +
  pw_versions :: "Version list"

datatype listing = Pipes "Pipe list" | PipesWithVersions "PipeWithVersions list"

text \<open>
  The rows of \<^verbatim>\<open>pipes LEFT JOIN versions ON pipes.id = versions.pipe_id\<close>: a pipe
  without versions yields one row whose version columns are \<^verbatim>\<open>NULL\<close>.
\<close>

definition leftJoin :: "database \<Rightarrow> (Pipe \<times> Version option) list" where
  "leftJoin d =
     concat (map (\<lambda>p. case filter (\<lambda>v. pipeId v = p_id p) (versions d) of
                          [] \<Rightarrow> [(p, None)]
                        | v # vs \<Rightarrow> map (\<lambda>x. (p, Some x)) (v # vs))
                 (pipes d))"

text \<open>
  \<^verbatim>\<open>orderBy(desc(pipes.createdAt), desc(versions.createdAt))\<close>: two stable sorts, the
  minor key first; \<^verbatim>\<open>DESC\<close> puts \<^verbatim>\<open>NULL\<close> first.
\<close>

definition orderBy_join :: "(Pipe \<times> Version option) list \<Rightarrow> (Pipe \<times> Version option) list" where
  "orderBy_join rows =
     sort_key (\<lambda>r. - p_createdAt (fst r))
       (sort_key (\<lambda>r. map_option (\<lambda>v. - v_createdAt v) (snd r)) rows)"

text \<open>
  One turn of the grouping loop. \<^verbatim>\<open>pipeMap\<close> is a \<^verbatim>\<open>Map\<close>, which keeps its keys in
  insertion order: an association list that appends new keys. \<^verbatim>\<open>if (row.versionId)\<close> is
  false for \<^verbatim>\<open>null\<close> and for \<^verbatim>\<open>0\<close>.
\<close>

definition pipeMap_row ::
  "Pipe \<times> Version option \<Rightarrow> (int \<times> PipeWithVersions) list \<Rightarrow> (int \<times> PipeWithVersions) list" where
  "pipeMap_row row pipeMap =
     (let pid = p_id (fst row);
          m1 = (if map_of pipeMap pid = None
                then pipeMap @ [(pid, \<lparr>p_id = p_id (fst row), p_name = p_name (fst row),
                                       p_description = p_description (fst row),
                                       p_createdAt = p_createdAt (fst row),
                                       p_updatedAt = p_updatedAt (fst row), pw_versions = []\<rparr>)]
                else pipeMap)
      in case snd row of
           None \<Rightarrow> m1
         | Some v \<Rightarrow>
             if v_id v = 0 then m1
             else map (\<lambda>(k, pipe). if k = pid then (k, pipe\<lparr>pw_versions := pw_versions pipe @ [v]\<rparr>)
                                   else (k, pipe)) m1)"

text \<open>\<^verbatim>\<open>Array.prototype.slice(start, end)\<close>: a negative index counts from the end.\<close>

definition js_slice :: "int \<Rightarrow> int \<Rightarrow> 'a list \<Rightarrow> 'a list" where
  "js_slice startIndex endIndex xs =
     (let n = int (length xs);
          s = (if startIndex < 0 then max (n + startIndex) 0 else min startIndex n);
          e = (if endIndex < 0 then max (n + endIndex) 0 else min endIndex n)
      in take (nat (e - s)) (drop (nat s) xs))"

definition findManyWithVersions :: "PipeQueryOptions \<Rightarrow> database \<Rightarrow> error + PipeWithVersions list" where
  "findManyWithVersions options d =
     (let page = (case pq_page options of None \<Rightarrow> 1 | Some x \<Rightarrow> x);
          limit = (case pq_limit options of None \<Rightarrow> 10 | Some x \<Rightarrow> x);
          query = where_search (pq_search options) fst (leftJoin d)
      in case limit_offset (limit * 10) ((page - 1) * limit * 10) (orderBy_join query) of
           Inl e \<Rightarrow> Inl e
         | Inr result \<Rightarrow>
             (let pipeMap = fold pipeMap_row result [];
                  pipesWithVersions = map snd pipeMap;
                  startIndex = (page - 1) * limit;
                  endIndex = startIndex + limit
              in Inr (js_slice startIndex endIndex pipesWithVersions)))"

definition pipeRepository_findMany :: "PipeQueryOptions \<Rightarrow> database \<Rightarrow> error + listing" where
  "pipeRepository_findMany options d =
     (let page = (case pq_page options of None \<Rightarrow> 1 | Some x \<Rightarrow> x);
          limit = (case pq_limit options of None \<Rightarrow> 10 | Some x \<Rightarrow> x)
      in if pq_includeVersions options = Some True then
           map_sum id PipesWithVersions (findManyWithVersions options d)
         else
           map_sum id Pipes
             (limit_offset limit ((page - 1) * limit)
                (orderBy_desc p_createdAt (where_search (pq_search options) id (pipes d)))))"

text \<open>
  \<^verbatim>\<open>count\<close>: the query is \<^verbatim>\<open>select({ count: pipes.id }).from(pipes)\<close>, which selects the
  \<^verbatim>\<open>id\<close> column under the name \<^verbatim>\<open>count\<close>, one row per pipe and in heap order;
  \<^verbatim>\<open>const [result] = await query; return result.count\<close> then reads the first row, and
  throws when there is none.
\<close>

definition pipeRepository_count :: "PipeQueryOptions \<Rightarrow> database \<Rightarrow> error + int" where
  "pipeRepository_count options d =
     (case map p_id (where_search (pq_search options) id (pipes d)) of
        [] \<Rightarrow> Inl (TypeError (''Cannot read properties of undefined (reading '' @ sq @ ''count'' @ sq @ '')''))
      | c # rest \<Rightarrow> Inr c)"

subsection \<open>Version repository\<close>

text \<open>
  \<^verbatim>\<open>db.insert(versions).values(versionData).returning()\<close>, with the constraints of the
  \<^verbatim>\<open>versions\<close> table: the primary key, \<^verbatim>\<open>versionNumber\<close> unique over the whole table,
  the compound unique index on \<^verbatim>\<open>(pipeId, versionNumber)\<close> and the foreign key to
  \<^verbatim>\<open>pipes\<close>.
\<close>

definition versionRepository_create :: "NewVersion \<Rightarrow> database \<Rightarrow> (error + Version) \<times> database" where
  "versionRepository_create versionData d =
     (let newId = versions_id_seq d + 1;
          d1 = d\<lparr>versions_id_seq := newId\<rparr>
      in case varchar 50 (nv_versionNumber versionData) of
           Inl e \<Rightarrow> (Inl e, d1)
         | Inr vn \<Rightarrow>
             if newId \<in> set (map v_id (versions d)) then
               (Inl (PostgresError ''23505'' ''versions_pkey''), d1)
             else if vn \<in> set (map versionNumber (versions d)) then
               (Inl (PostgresError ''23505'' ''versions_version_number_unique''), d1)
             else if (nv_pipeId versionData, vn) \<in> set (map (\<lambda>v. (pipeId v, versionNumber v)) (versions d)) then
               (Inl (PostgresError ''23505'' ''unique_pipe_version''), d1)
             else if nv_pipeId versionData \<notin> set (map p_id (pipes d)) then
               (Inl (PostgresError ''23503'' ''versions_pipe_id_pipes_id_fk''), d1)
             else
               (let version = \<lparr>v_id = newId, pipeId = nv_pipeId versionData, versionNumber = vn,
                                assetUrl = nv_assetUrl versionData,
                                v_createdAt = nv_createdAt versionData,
                                v_updatedAt = nv_updatedAt versionData,
                                envSchema = nv_envSchema versionData\<rparr>
                in (Inr version, d1\<lparr>versions := versions d @ [version]\<rparr>)))"

record VersionQueryOptions =
  vq_page :: "int option"
  vq_limit :: "int option"
  vq_pipeId :: "int option"

definition versionRepository_findByPipeId :: "int \<Rightarrow> database \<Rightarrow> Version list" where
  "versionRepository_findByPipeId pid d =
     orderBy_desc v_createdAt (filter (\<lambda>v. pipeId v = pid) (versions d))"

definition where_pipeId :: "int option \<Rightarrow> Version list \<Rightarrow> Version list" where
  "where_pipeId pid rows =
     (case pid of None \<Rightarrow> rows | Some i \<Rightarrow> filter (\<lambda>v. pipeId v = i) rows)"

definition versionRepository_findMany :: "VersionQueryOptions \<Rightarrow> database \<Rightarrow> error + Version list" where
  "versionRepository_findMany options d =
     (let page = (case vq_page options of None \<Rightarrow> 1 | Some x \<Rightarrow> x);
          limit = (case vq_limit options of None \<Rightarrow> 10 | Some x \<Rightarrow> x)
      in limit_offset limit ((page - 1) * limit)
           (orderBy_desc v_createdAt (where_pipeId (vq_pipeId options) (versions d))))"

definition versionRepository_findByPipeIdAndVersionNumber ::
  "int \<Rightarrow> string \<Rightarrow> database \<Rightarrow> Version option" where
  "versionRepository_findByPipeIdAndVersionNumber pid vn d =
     find (\<lambda>v. pipeId v = pid \<and> versionNumber v = vn) (versions d)"

text \<open>\<^verbatim>\<open>count\<close> of the version repository is written as the pipe repository's.\<close>

definition versionRepository_count :: "VersionQueryOptions \<Rightarrow> database \<Rightarrow> error + int" where
  "versionRepository_count options d =
     (case map v_id (where_pipeId (vq_pipeId options) (versions d)) of
        [] \<Rightarrow> Inl (TypeError (''Cannot read properties of undefined (reading '' @ sq @ ''count'' @ sq @ '')''))
      | c # rest \<Rightarrow> Inr c)"

text \<open>\<^verbatim>\<open>where(eq(versions.pipeId, pipeId)).orderBy(desc(versions.createdAt)).limit(1)\<close>\<close>

definition versionRepository_findLatestByPipeId :: "int \<Rightarrow> database \<Rightarrow> Version option" where
  "versionRepository_findLatestByPipeId pid d =
     (case take 1 (orderBy_desc v_createdAt (filter (\<lambda>v. pipeId v = pid) (versions d))) of
        [] \<Rightarrow> None
      | version # rest \<Rightarrow> Some version)"

section \<open>Archive store\<close>

text \<open>
  The filesystem: the content of every path that exists, and the paths the operating
  system refuses to open for writing (missing directory, permissions, no space left).
  An upload is a stream that either ends after delivering its bytes or emits an error
  after delivering some of them.
\<close>

record disk =
  contents :: "string \<Rightarrow> nat list option"
  refuses :: "string \<Rightarrow> bool"

datatype Readable = Ended "nat list" | Errored "nat list"

record MultipartFile =
  mf_mimetype :: string
  mf_file :: Readable

record FileStorageService =
  storageDir :: string
  baseUrl :: string

record StoredFile =
  fileName :: string
  filePath :: string
  url :: string
  sf_size :: nat

text \<open>
  \<^verbatim>\<open>path.join\<close> of node (POSIX): the non-empty arguments joined by \<^verbatim>\<open>/\<close> and
  normalised. Normalisation drops empty and \<^verbatim>\<open>.\<close> segments, lets \<^verbatim>\<open>..\<close> remove the
  segment before it (a relative path keeps the \<^verbatim>\<open>..\<close> that lead above its start, an
  absolute one drops them), and keeps a leading and a trailing separator.
\<close>

fun splitOn :: "char \<Rightarrow> string \<Rightarrow> string list" where
  "splitOn c [] = [[]]"
| "splitOn c (x # xs) =
     (if x = c then [] # splitOn c xs
      else (case splitOn c xs of [] \<Rightarrow> [[x]] | seg # segs \<Rightarrow> (x # seg) # segs))"

definition push_segment :: "bool \<Rightarrow> string \<Rightarrow> string list \<Rightarrow> string list" where
  "push_segment allowAboveRoot seg res =
     (if seg = [] \<or> seg = ''.'' then res
      else if seg = ''..'' then
        (if res \<noteq> [] \<and> last res \<noteq> ''..'' then butlast res
         else if allowAboveRoot then res @ [''..'']
         else res)
      else res @ [seg])"

fun join_segments :: "string list \<Rightarrow> string" where
  "join_segments [] = []"
| "join_segments [seg] = seg"
| "join_segments (seg # segs) = seg @ ''/'' @ join_segments segs"

definition normalize :: "string \<Rightarrow> string" where
  "normalize path =
     (case path of
        [] \<Rightarrow> ''.''
      | c # cs \<Rightarrow>
          (let isAbsolute = (c = CHR ''/'');
               trailingSeparator = (last path = CHR ''/'');
               normalized = join_segments (fold (push_segment (\<not> isAbsolute)) (splitOn (CHR ''/'') path) [])
           in if normalized = [] then
                (if isAbsolute then ''/'' else if trailingSeparator then ''./'' else ''.'')
              else (if isAbsolute then ''/'' else [])
                   @ normalized @ (if trailingSeparator then ''/'' else [])))"

definition path_join :: "string \<Rightarrow> string \<Rightarrow> string" where
  "path_join dir name =
     normalize (if dir = [] then name else if name = [] then dir else dir @ ''/'' @ name)"

text \<open>
  \<^verbatim>\<open>storeFile\<close>: any failure of the write stream, of the upload stream or of \<^verbatim>\<open>fs.stat\<close>
  is caught and rethrown as \<^verbatim>\<open>new Error('Failed to store file')\<close>. A write stream that was
  opened has created the file, so an upload that errors leaves the bytes it delivered.
\<close>

definition storeFile ::
  "FileStorageService \<Rightarrow> MultipartFile \<Rightarrow> string \<Rightarrow> string \<Rightarrow> disk \<Rightarrow> (error + StoredFile) \<times> disk" where
  "storeFile svc f pipeName version fs =
     (let fileName' = pipeName @ ''-'' @ version @ ''.tar'';
          filePath' = path_join (storageDir svc) fileName'
      in if refuses fs filePath' then (Inl (Error ''Failed to store file''), fs)
         else case mf_file f of
                Errored bs \<Rightarrow>
                  (Inl (Error ''Failed to store file''), fs\<lparr>contents := (contents fs)(filePath' \<mapsto> bs)\<rparr>)
              | Ended bs \<Rightarrow>
                  (Inr \<lparr>fileName = fileName', filePath = filePath',
                        url = baseUrl svc @ ''/files/'' @ fileName', sf_size = length bs\<rparr>,
                   fs\<lparr>contents := (contents fs)(filePath' \<mapsto> bs)\<rparr>))"

definition fileExists :: "FileStorageService \<Rightarrow> string \<Rightarrow> disk \<Rightarrow> bool" where
  "fileExists svc fileName' fs = (contents fs (path_join (storageDir svc) fileName') \<noteq> None)"

definition getFilePath :: "FileStorageService \<Rightarrow> string \<Rightarrow> string" where
  "getFilePath svc fileName' = path_join (storageDir svc) fileName'"

section \<open>Version service\<close>

text \<open>
  \<^verbatim>\<open>createVersion\<close>: the pipe is looked up first; \<^verbatim>\<open>new Date()\<close> is the argument \<open>now\<close>.
\<close>

definition createVersion :: "int \<Rightarrow> CreateVersionDTO \<Rightarrow> database \<Rightarrow> (error + Version) \<times> database" where
  "createVersion now versionData d =
     (case pipeRepository_findById (cv_pipeId versionData) d of
        None \<Rightarrow> (Inl (Error ''Pipe not found''), d)
      | Some pipe \<Rightarrow>
          versionRepository_create
            \<lparr>nv_pipeId = cv_pipeId versionData, nv_versionNumber = cv_versionNumber versionData,
             nv_assetUrl = cv_assetUrl versionData, nv_envSchema = cv_envSchema versionData,
             nv_createdAt = now, nv_updatedAt = now\<rparr> d)"

definition getVersionsByPipeId :: "int \<Rightarrow> database \<Rightarrow> error + Version list" where
  "getVersionsByPipeId pid d =
     (case pipeRepository_findById pid d of
        None \<Rightarrow> Inl (Error ''Pipe not found'')
      | Some pipe \<Rightarrow> Inr (versionRepository_findByPipeId pid d))"

definition getVersionByPipeIdAndVersionNumber ::
  "int \<Rightarrow> string \<Rightarrow> database \<Rightarrow> error + Version option" where
  "getVersionByPipeIdAndVersionNumber pid vn d =
     Inr (versionRepository_findByPipeIdAndVersionNumber pid vn d)"

text \<open>
  \<^verbatim>\<open>Math.ceil(totalCount / limit)\<close> on integers: division by zero gives an infinity, or
  \<^verbatim>\<open>NaN\<close> for \<^verbatim>\<open>0 / 0\<close>.
\<close>

datatype number = Number int | Infinity | MinusInfinity | NaN

definition Math_ceil_div :: "int \<Rightarrow> int \<Rightarrow> number" where
  "Math_ceil_div a b =
     (if b = 0 then (if a = 0 then NaN else if 0 < a then Infinity else MinusInfinity)
      else Number (- ((- a) div b)))"

record 'a paginated =
  items :: 'a
  totalCount :: int
  page :: int
  limit :: int
  totalPages :: number

text \<open>
  \<^verbatim>\<open>getVersions\<close>: \<^verbatim>\<open>Promise.all\<close> of \<^verbatim>\<open>findMany\<close> and \<^verbatim>\<open>count\<close>; when both fail the
  model reports the error of \<^verbatim>\<open>findMany\<close>.
\<close>

definition getVersions :: "VersionQueryOptions \<Rightarrow> database \<Rightarrow> error + (Version list) paginated" where
  "getVersions options d =
     (let page' = (case vq_page options of None \<Rightarrow> 1 | Some x \<Rightarrow> x);
          limit' = (case vq_limit options of None \<Rightarrow> 10 | Some x \<Rightarrow> x)
      in case versionRepository_findMany options d of
           Inl e \<Rightarrow> Inl e
         | Inr vs \<Rightarrow>
             (case versionRepository_count options d of
                Inl e \<Rightarrow> Inl e
              | Inr n \<Rightarrow>
                  Inr \<lparr>items = vs, totalCount = n, page = page', limit = limit',
                       totalPages = Math_ceil_div n limit'\<rparr>))"

definition getLatestVersionByPipeId :: "int \<Rightarrow> database \<Rightarrow> error + Version option" where
  "getLatestVersionByPipeId pid d =
     (case pipeRepository_findById pid d of
        None \<Rightarrow> Inl (Error ''Pipe not found'')
      | Some pipe \<Rightarrow> Inr (versionRepository_findLatestByPipeId pid d))"

section \<open>Pipe service\<close>

record CreatePipeWithFileDTO =
  cf_name :: string
  cf_version :: string
  cf_description :: "string option"
  cf_file :: MultipartFile
  cf_envSchema :: string

text \<open>The state a request runs against: the filesystem and the database.\<close>

record world =
  fs :: disk
  db :: database

definition getPipeByName :: "string \<Rightarrow> database \<Rightarrow> Pipe option" where
  "getPipeByName name d = pipeRepository_findByName name d"

text \<open>
  \<^verbatim>\<open>createPipeWithFile\<close>: store the archive, find the pipe by name, create it when absent,
  then create the version. Nothing is undone when a later step fails. Every
  \<^verbatim>\<open>new Date()\<close> of one call reads the same instant \<open>now\<close>.
\<close>

definition createPipeWithFile ::
  "FileStorageService \<Rightarrow> int \<Rightarrow> CreatePipeWithFileDTO \<Rightarrow> world \<Rightarrow> (error + Pipe \<times> Version) \<times> world" where
  "createPipeWithFile svc now pipeData w =
     (case storeFile svc (cf_file pipeData) (cf_name pipeData) (cf_version pipeData) (fs w) of
        (Inl e, fs') \<Rightarrow> (Inl e, w\<lparr>fs := fs'\<rparr>)
      | (Inr storedFile, fs') \<Rightarrow>
          (case getPipeByName (cf_name pipeData) (db w) of
             None \<Rightarrow>
               (case pipeRepository_create
                       \<lparr>np_name = cf_name pipeData, np_description = cf_description pipeData,
                        np_createdAt = now, np_updatedAt = now\<rparr> (db w) of
                  (Inl e, d1) \<Rightarrow> (Inl e, \<lparr>fs = fs', db = d1\<rparr>)
                | (Inr pipe, d1) \<Rightarrow>
                    (case createVersion now
                            \<lparr>cv_pipeId = p_id pipe, cv_versionNumber = cf_version pipeData,
                             cv_assetUrl = url storedFile, cv_envSchema = cf_envSchema pipeData\<rparr> d1 of
                       (Inl e, d2) \<Rightarrow> (Inl e, \<lparr>fs = fs', db = d2\<rparr>)
                     | (Inr version, d2) \<Rightarrow> (Inr (pipe, version), \<lparr>fs = fs', db = d2\<rparr>)))
           | Some pipe \<Rightarrow>
               (case createVersion now
                       \<lparr>cv_pipeId = p_id pipe, cv_versionNumber = cf_version pipeData,
                        cv_assetUrl = url storedFile, cv_envSchema = cf_envSchema pipeData\<rparr> (db w) of
                  (Inl e, d2) \<Rightarrow> (Inl e, \<lparr>fs = fs', db = d2\<rparr>)
                | (Inr version, d2) \<Rightarrow> (Inr (pipe, version), \<lparr>fs = fs', db = d2\<rparr>))))"

text \<open>
  \<^verbatim>\<open>getPipes\<close>: \<^verbatim>\<open>Promise.all\<close> of \<^verbatim>\<open>findMany\<close> and \<^verbatim>\<open>count\<close>, then
  \<^verbatim>\<open>Math.ceil(totalCount / limit)\<close>; when both queries fail the model reports the error of
  \<^verbatim>\<open>findMany\<close>.
\<close>

definition getPipes :: "PipeQueryOptions \<Rightarrow> database \<Rightarrow> error + listing paginated" where
  "getPipes options d =
     (let page' = (case pq_page options of None \<Rightarrow> 1 | Some x \<Rightarrow> x);
          limit' = (case pq_limit options of None \<Rightarrow> 10 | Some x \<Rightarrow> x)
      in case pipeRepository_findMany options d of
           Inl e \<Rightarrow> Inl e
         | Inr ps \<Rightarrow>
             (case pipeRepository_count options d of
                Inl e \<Rightarrow> Inl e
              | Inr n \<Rightarrow>
                  Inr \<lparr>items = ps, totalCount = n, page = page', limit = limit',
                       totalPages = Math_ceil_div n limit'\<rparr>))"

text \<open>
  The version \<^verbatim>\<open>getPipeForDownload\<close> selects (\<^verbatim>\<open>let pipeVersion\<close> and the \<^verbatim>\<open>if (version)\<close>
  after it): the first of the pipe's versions, latest first, with exactly that
  \<^verbatim>\<open>versionNumber\<close>, or the latest version when no version is asked for.
\<close>

definition pipeVersion_of :: "Pipe \<Rightarrow> string option \<Rightarrow> database \<Rightarrow> error + Version option" where
  "pipeVersion_of pipe version d =
     (case truthy version of
        Some ver \<Rightarrow>
          (case getVersionsByPipeId (p_id pipe) d of
             Inl e \<Rightarrow> Inl e
           | Inr vs \<Rightarrow> Inr (find (\<lambda>v. versionNumber v = ver) vs))
      | None \<Rightarrow> getLatestVersionByPipeId (p_id pipe) d)"

definition archive_name :: "Pipe \<Rightarrow> Version \<Rightarrow> string" where
  "archive_name pipe pipeVersion = p_name pipe @ ''-'' @ versionNumber pipeVersion @ ''.tar''"

definition getPipeForDownload ::
  "FileStorageService \<Rightarrow> string \<Rightarrow> string option \<Rightarrow> world \<Rightarrow> error + (Pipe \<times> Version \<times> string) option" where
  "getPipeForDownload svc name version w =
     (case getPipeByName name (db w) of
        None \<Rightarrow> Inr None
      | Some pipe \<Rightarrow>
          (case pipeVersion_of pipe version (db w) of
             Inl e \<Rightarrow> Inl e
           | Inr None \<Rightarrow> Inr None
           | Inr (Some pipeVersion) \<Rightarrow>
               if assetUrl pipeVersion = [] then Inr None
               else if \<not> fileExists svc (archive_name pipe pipeVersion) (fs w) then Inr None
               else Inr (Some (pipe, pipeVersion, getFilePath svc (archive_name pipe pipeVersion)))))"

section \<open>Pipe controller\<close>




section \<open>Example states\<close>

definition svc0 :: FileStorageService where
  "svc0 = \<lparr>storageDir = ''./uploads'', baseUrl = ''http://localhost:3000''\<rparr>"

definition empty_db :: database where
  "empty_db = \<lparr>pipes = [], versions = [], pipes_id_seq = 0, versions_id_seq = 0\<rparr>"

definition empty_disk :: disk where
  "empty_disk = \<lparr>contents = (\<lambda>_. None), refuses = (\<lambda>_. False)\<rparr>"

definition empty_world :: world where
  "empty_world = \<lparr>fs = empty_disk, db = empty_db\<rparr>"

definition acme_upload :: "Readable \<Rightarrow> CreatePipeWithFileDTO" where
  "acme_upload r =
     \<lparr>cf_name = ''acme'', cf_version = ''1.0.0'', cf_description = Some ''A'',
      cf_file = \<lparr>mf_mimetype = ''application/x-tar'', mf_file = r\<rparr>, cf_envSchema = ''{}''\<rparr>"

text \<open>The registry after \<^verbatim>\<open>acme 1.0.0\<close> was registered at time 100 with a three-byte archive.\<close>

definition acme_pipe :: Pipe where
  "acme_pipe =
     \<lparr>p_id = 1, p_name = ''acme'', p_description = Some ''A'', p_createdAt = 100, p_updatedAt = 100\<rparr>"

definition acme_version :: Version where
  "acme_version =
     \<lparr>v_id = 1, pipeId = 1, versionNumber = ''1.0.0'',
      assetUrl = ''http://localhost:3000/files/acme-1.0.0.tar'',
      v_createdAt = 100, v_updatedAt = 100, envSchema = ''{}''\<rparr>"

definition acme_world :: world where
  "acme_world =
     \<lparr>fs = \<lparr>contents = (\<lambda>_. None)(''uploads/acme-1.0.0.tar'' \<mapsto> [1, 2, 3]), refuses = (\<lambda>_. False)\<rparr>,
      db = \<lparr>pipes = [acme_pipe], versions = [acme_version], pipes_id_seq = 1, versions_id_seq = 1\<rparr>\<rparr>"

text \<open>
  The same pipe with no version at all, and with its version row but an empty archive
  directory.
\<close>

definition acme_no_versions :: world where
  "acme_no_versions =
     \<lparr>fs = empty_disk,
      db = \<lparr>pipes = [acme_pipe], versions = [], pipes_id_seq = 1, versions_id_seq = 0\<rparr>\<rparr>"

definition acme_no_archive :: world where
  "acme_no_archive = \<lparr>fs = empty_disk, db = db acme_world\<rparr>"

text \<open>
  The pipe with three versions; the one created last (at time 300) is neither the first nor
  the last row of the table, and only its archive is on disk.
\<close>

definition acme_v :: "int \<Rightarrow> string \<Rightarrow> int \<Rightarrow> Version" where
  "acme_v i vn t =
     \<lparr>v_id = i, pipeId = 1, versionNumber = vn,
      assetUrl = ''http://localhost:3000/files/acme-'' @ vn @ ''.tar'',
      v_createdAt = t, v_updatedAt = t, envSchema = ''{}''\<rparr>"

definition acme_three :: world where
  "acme_three =
     \<lparr>fs = \<lparr>contents = (\<lambda>_. None)(''uploads/acme-2.0.0.tar'' \<mapsto> [7, 8]), refuses = (\<lambda>_. False)\<rparr>,
      db = \<lparr>pipes = [acme_pipe],
            versions = [acme_v 1 ''1.0.0'' 100, acme_v 2 ''2.0.0'' 300, acme_v 3 ''1.5.0'' 200],
            pipes_id_seq = 1, versions_id_seq = 3\<rparr>\<rparr>"

text \<open>
  Twenty-five pipes without versions, with ids 1 to 25 in the order they were created, and
  the request for the second page of ten.
\<close>

definition pipe_n :: "int \<Rightarrow> Pipe" where
  "pipe_n i =
     \<lparr>p_id = i, p_name = replicate (nat i) (CHR ''p''), p_description = None,
      p_createdAt = 1000 + i, p_updatedAt = 1000 + i\<rparr>"

definition db25 :: database where
  "db25 = \<lparr>pipes = map pipe_n [1..25], versions = [], pipes_id_seq = 25, versions_id_seq = 0\<rparr>"

definition page_of_ten :: "int \<Rightarrow> bool \<Rightarrow> PipeQueryOptions" where
  "page_of_ten n withVersions =
     \<lparr>pq_page = Some n, pq_limit = Some 10, pq_search = None, pq_includeVersions = Some withVersions\<rparr>"

section \<open>Properties\<close>

lemmas example_defs = svc0_def empty_db_def empty_disk_def empty_world_def acme_upload_def
  acme_pipe_def acme_version_def acme_world_def acme_no_versions_def acme_no_archive_def
  acme_v_def acme_three_def

lemma uploads_paths:
  "path_join ''./uploads'' ''acme-1.0.0.tar'' = ''uploads/acme-1.0.0.tar''"
  "path_join ''./uploads'' ''acme-2.0.0.tar'' = ''uploads/acme-2.0.0.tar''"
  by code_simp+

lemmas create_defs = createPipeWithFile_def storeFile_def uploads_paths getPipeByName_def
  pipeRepository_findByName_def pipeRepository_findById_def pipeRepository_create_def
  createVersion_def versionRepository_create_def varchar_def Let_def

subsection \<open>Inserts\<close>

lemma pipeRepository_create_Inr:
  "pipeRepository_create pd d = (Inr p, d') \<Longrightarrow>
     pipes d' = pipes d @ [p] \<and> versions d' = versions d"
  by (auto simp: pipeRepository_create_def Let_def split: sum.splits if_splits)

lemma pipeRepository_create_result:
  "pipeRepository_create pd d = (r, d') \<Longrightarrow>
     versions d' = versions d \<and>
     (case r of Inl e \<Rightarrow> (is_unique_violation e \<or> varchar 255 (np_name pd) = Inl e)
      | Inr p \<Rightarrow> pipeRepository_findById (p_id p) d' \<noteq> None)"
  by (auto simp: pipeRepository_create_def Let_def pipeRepository_findById_def find_None_iff
           split: sum.splits if_splits)

lemma versionRepository_create_Inr:
  "versionRepository_create vd d = (Inr v, d') \<Longrightarrow>
     versions d' = versions d @ [v] \<and> pipes d' = pipes d \<and> pipeId v = nv_pipeId vd
     \<and> varchar 50 (nv_versionNumber vd) = Inr (versionNumber v)"
  by (auto simp: versionRepository_create_def Let_def split: sum.splits if_splits)

lemma versionRepository_create_Inl:
  "versionRepository_create vd d = (Inl e, d') \<Longrightarrow>
     versions d' = versions d \<and> pipes d' = pipes d"
  by (auto simp: versionRepository_create_def Let_def split: sum.splits if_splits)

lemma versionRepository_create_duplicate:
  assumes "varchar 50 (nv_versionNumber vd) = Inr vn"
      and "vn \<in> set (map versionNumber (versions d))"
  shows "\<exists>e d'. versionRepository_create vd d = (Inl e, d') \<and> is_unique_violation e
                 \<and> versions d' = versions d \<and> pipes d' = pipes d"
  using assms by (auto simp: versionRepository_create_def Let_def)

lemma createVersion_Inr:
  "createVersion now vd d = (Inr v, d') \<Longrightarrow>
     versions d' = versions d @ [v] \<and> pipes d' = pipes d \<and> pipeId v = cv_pipeId vd
     \<and> varchar 50 (cv_versionNumber vd) = Inr (versionNumber v)"
  by (auto simp: createVersion_def split: option.splits dest!: versionRepository_create_Inr)

lemma createVersion_Inl:
  "createVersion now vd d = (Inl e, d') \<Longrightarrow>
     versions d' = versions d \<and> pipes d' = pipes d"
  by (auto simp: createVersion_def split: option.splits dest!: versionRepository_create_Inl)

lemma find_Some_in: "find P xs = Some x \<Longrightarrow> x \<in> set xs \<and> P x"
  by (auto simp: find_Some_iff)

lemma findByName_findById:
  "pipeRepository_findByName n d = Some p \<Longrightarrow> pipeRepository_findById (p_id p) d \<noteq> None"
  by (auto simp: pipeRepository_findByName_def pipeRepository_findById_def find_None_iff
           dest!: find_Some_in)

lemma createVersion_duplicate:
  assumes "varchar 50 (cv_versionNumber vd) = Inr vn"
      and "vn \<in> set (map versionNumber (versions d))"
      and "pipeRepository_findById (cv_pipeId vd) d \<noteq> None"
  shows "\<exists>e d'. createVersion now vd d = (Inl e, d') \<and> is_unique_violation e
                 \<and> versions d' = versions d \<and> pipes d' = pipes d"
proof -
  from assms(3) obtain p where "pipeRepository_findById (cv_pipeId vd) d = Some p" by auto
  then show ?thesis
    using versionRepository_create_duplicate
      [of "\<lparr>nv_pipeId = cv_pipeId vd, nv_versionNumber = cv_versionNumber vd,
             nv_assetUrl = cv_assetUrl vd, nv_envSchema = cv_envSchema vd,
             nv_createdAt = now, nv_updatedAt = now\<rparr>" vn d] assms(1,2)
    by (simp add: createVersion_def)
qed

subsection \<open>Registration\<close>

lemma first_registration:
  "createPipeWithFile svc0 100 (acme_upload (Ended [1, 2, 3])) empty_world
     = (Inr (acme_pipe, acme_version), acme_world)"
  by (simp add: example_defs create_defs)

lemma storeFile_error:
  "storeFile svc f n v d = (Inl e, d') \<Longrightarrow> e = Error ''Failed to store file''"
  by (auto simp: storeFile_def Let_def split: if_splits Readable.splits)

text \<open>
  C1. When persisting the archive fails, \<^verbatim>\<open>createPipeWithFile\<close> fails with the storage
  error (\<^verbatim>\<open>Failed to store file\<close>) and the database is left as it was: no Pipe row and no
  Version row is created.
\<close>

theorem C1_store_failure_aborts:
  assumes "fst (storeFile svc (cf_file pipeData) (cf_name pipeData) (cf_version pipeData) (fs w)) = Inl e"
  shows "fst (createPipeWithFile svc now pipeData w) = Inl (Error ''Failed to store file'')
         \<and> db (snd (createPipeWithFile svc now pipeData w)) = db w"
proof -
  obtain d' where st: "storeFile svc (cf_file pipeData) (cf_name pipeData) (cf_version pipeData) (fs w) = (Inl e, d')"
    using assms by (cases "storeFile svc (cf_file pipeData) (cf_name pipeData) (cf_version pipeData) (fs w)") auto
  have "e = Error ''Failed to store file''"
    using st by (rule storeFile_error)
  with st show ?thesis
    by (simp add: createPipeWithFile_def)
qed

theorem C1_store_failure_aborts_witness:
  "fst (storeFile svc0 (cf_file (acme_upload (Errored [1, 2]))) (cf_name (acme_upload (Errored [1, 2])))
          (cf_version (acme_upload (Errored [1, 2]))) (fs empty_world)) = Inl (Error ''Failed to store file'')
   \<and> fst (createPipeWithFile svc0 0 (acme_upload (Errored [1, 2])) empty_world) = Inl (Error ''Failed to store file'')
   \<and> db (snd (createPipeWithFile svc0 0 (acme_upload (Errored [1, 2])) empty_world)) = empty_db"
proof -
  have h: "fst (storeFile svc0 (cf_file (acme_upload (Errored [1, 2]))) (cf_name (acme_upload (Errored [1, 2])))
          (cf_version (acme_upload (Errored [1, 2]))) (fs empty_world)) = Inl (Error ''Failed to store file'')"
    by (simp add: storeFile_def acme_upload_def empty_world_def empty_disk_def svc0_def Let_def)
  show ?thesis
    using h C1_store_failure_aborts [OF h, of 0] by (simp add: empty_world_def)
qed

text \<open>
  C2. When no pipe of that name exists, a successful \<^verbatim>\<open>createPipeWithFile\<close> adds exactly
  one row to \<^verbatim>\<open>pipes\<close> and exactly one row to \<^verbatim>\<open>versions\<close>, the two rows it returns, and
  the returned version's \<^verbatim>\<open>pipeId\<close> is the returned pipe's \<^verbatim>\<open>id\<close>.
\<close>

theorem C2_new_pipe_and_version:
  assumes "getPipeByName (cf_name pipeData) (db w) = None"
      and "createPipeWithFile svc now pipeData w = (Inr (pipe, version), w')"
  shows "pipes (db w') = pipes (db w) @ [pipe]
         \<and> versions (db w') = versions (db w) @ [version]
         \<and> pipeId version = p_id pipe"
  using assms
  by (auto simp: createPipeWithFile_def split: prod.splits sum.splits
           dest!: pipeRepository_create_Inr createVersion_Inr)

theorem C2_new_pipe_and_version_witness:
  "getPipeByName (cf_name (acme_upload (Ended [1, 2, 3]))) (db empty_world) = None
   \<and> createPipeWithFile svc0 100 (acme_upload (Ended [1, 2, 3])) empty_world
       = (Inr (acme_pipe, acme_version), acme_world)
   \<and> pipes (db acme_world) = pipes (db empty_world) @ [acme_pipe]
   \<and> versions (db acme_world) = versions (db empty_world) @ [acme_version]
   \<and> pipeId acme_version = p_id acme_pipe"
proof -
  have h: "getPipeByName (cf_name (acme_upload (Ended [1, 2, 3]))) (db empty_world) = None"
    by (simp add: example_defs getPipeByName_def pipeRepository_findByName_def)
  show ?thesis
    using h first_registration C2_new_pipe_and_version [OF h first_registration] by simp
qed

text \<open>
  C10. When the name is that of an existing pipe, \<^verbatim>\<open>createPipeWithFile\<close> leaves the
  \<^verbatim>\<open>pipes\<close> table as it was (so neither the description nor \<^verbatim>\<open>updatedAt\<close> of the pipe
  changes), the supplied description has no effect on the outcome, and a successful call
  returns that pipe and adds one version row under its id; a failed call adds none.
\<close>

theorem C10_existing_pipe_untouched:
  assumes "getPipeByName (cf_name pipeData) (db w) = Some p"
  shows "pipes (db (snd (createPipeWithFile svc now pipeData w))) = pipes (db w)
       \<and> createPipeWithFile svc now (pipeData\<lparr>cf_description := descr\<rparr>) w
           = createPipeWithFile svc now pipeData w
       \<and> (case fst (createPipeWithFile svc now pipeData w) of
             Inl e \<Rightarrow> versions (db (snd (createPipeWithFile svc now pipeData w))) = versions (db w)
           | Inr (pipe, version) \<Rightarrow>
               pipe = p \<and> pipeId version = p_id p
               \<and> versions (db (snd (createPipeWithFile svc now pipeData w))) = versions (db w) @ [version])"
  using assms
  by (auto simp: createPipeWithFile_def split: prod.splits sum.splits
           dest!: createVersion_Inr createVersion_Inl)

theorem C10_existing_pipe_untouched_witness:
  "getPipeByName (cf_name ((acme_upload (Ended [4]))\<lparr>cf_version := ''2.0.0''\<rparr>)) (db acme_world) = Some acme_pipe
   \<and> pipes (db (snd (createPipeWithFile svc0 200 ((acme_upload (Ended [4]))\<lparr>cf_version := ''2.0.0''\<rparr>) acme_world)))
       = [acme_pipe]
   \<and> createPipeWithFile svc0 200 ((acme_upload (Ended [4]))\<lparr>cf_version := ''2.0.0'', cf_description := Some ''B''\<rparr>) acme_world
       = createPipeWithFile svc0 200 ((acme_upload (Ended [4]))\<lparr>cf_version := ''2.0.0''\<rparr>) acme_world
   \<and> fst (createPipeWithFile svc0 200 ((acme_upload (Ended [4]))\<lparr>cf_version := ''2.0.0''\<rparr>) acme_world)
       = Inr (acme_pipe,
              \<lparr>v_id = 2, pipeId = 1, versionNumber = ''2.0.0'',
               assetUrl = ''http://localhost:3000/files/acme-2.0.0.tar'',
               v_createdAt = 200, v_updatedAt = 200, envSchema = ''{}''\<rparr>)"
proof -
  have h: "getPipeByName (cf_name ((acme_upload (Ended [4]))\<lparr>cf_version := ''2.0.0''\<rparr>)) (db acme_world) = Some acme_pipe"
    by (simp add: example_defs getPipeByName_def pipeRepository_findByName_def)
  have r: "fst (createPipeWithFile svc0 200 ((acme_upload (Ended [4]))\<lparr>cf_version := ''2.0.0''\<rparr>) acme_world)
       = Inr (acme_pipe,
              \<lparr>v_id = 2, pipeId = 1, versionNumber = ''2.0.0'',
               assetUrl = ''http://localhost:3000/files/acme-2.0.0.tar'',
               v_createdAt = 200, v_updatedAt = 200, envSchema = ''{}''\<rparr>)"
    by (simp add: example_defs create_defs)
  show ?thesis
    using h r C10_existing_pipe_untouched [OF h, of svc0 200 "Some ''B''"]
    by (simp add: acme_world_def)
qed

lemma createPipeWithFile_Inr_version:
  assumes "createPipeWithFile svc now pd w = (Inr (pipe, version), w')"
  shows "varchar 50 (cf_version pd) = Inr (versionNumber version)
         \<and> versionNumber version \<in> set (map versionNumber (versions (db w')))"
  using assms
  by (auto simp: createPipeWithFile_def split: prod.splits sum.splits option.splits
           dest!: createVersion_Inr)

lemma createPipeWithFile_Inr_pipe:
  assumes "createPipeWithFile svc now pd w = (Inr (pipe, version), w')"
  shows "getPipeByName (cf_name pd) (db w') \<noteq> None \<or> (\<exists>nm. varchar 255 (cf_name pd) = Inr nm)"
  using assms
  by (auto simp: createPipeWithFile_def getPipeByName_def pipeRepository_findByName_def
                 pipeRepository_create_def Let_def
           split: prod.splits sum.splits option.splits if_splits
           dest!: createVersion_Inr)

lemma second_call_stored:
  assumes vn: "varchar 50 (cf_version pd) = Inr vn"
      and dup: "vn \<in> set (map versionNumber (versions (db w)))"
      and nm: "getPipeByName (cf_name pd) (db w) \<noteq> None \<or> (\<exists>nm. varchar 255 (cf_name pd) = Inr nm)"
      and st: "storeFile svc (cf_file pd) (cf_name pd) (cf_version pd) (fs w) = (Inr sf, fs')"
  shows "\<exists>e w'. createPipeWithFile svc now pd w = (Inl e, w') \<and> is_unique_violation e
                 \<and> versions (db w') = versions (db w)"
proof (cases "getPipeByName (cf_name pd) (db w)")
  case (Some p)
  let ?vd = "\<lparr>cv_pipeId = p_id p, cv_versionNumber = cf_version pd,
               cv_assetUrl = url sf, cv_envSchema = cf_envSchema pd\<rparr>"
  have "pipeRepository_findById (cv_pipeId ?vd) (db w) \<noteq> None"
    using Some findByName_findById [of "cf_name pd" "db w" p] by (simp add: getPipeByName_def)
  then obtain e d' where "createVersion now ?vd (db w) = (Inl e, d')" "is_unique_violation e"
      "versions d' = versions (db w)"
    using createVersion_duplicate [of ?vd vn "db w" now] vn dup by auto
  then show ?thesis
    using Some st by (simp add: createPipeWithFile_def)
next
  case None
  let ?np = "\<lparr>np_name = cf_name pd, np_description = cf_description pd,
               np_createdAt = now, np_updatedAt = now\<rparr>"
  obtain r d1 where cr: "pipeRepository_create ?np (db w) = (r, d1)"
    by (cases "pipeRepository_create ?np (db w)") auto
  note res = pipeRepository_create_result [OF cr]
  show ?thesis
  proof (cases r)
    case (Inl e)
    have "is_unique_violation e"
      using res Inl nm None by auto
    then show ?thesis
      using None st cr Inl res by (simp add: createPipeWithFile_def)
  next
    case (Inr p)
    let ?vd = "\<lparr>cv_pipeId = p_id p, cv_versionNumber = cf_version pd,
                 cv_assetUrl = url sf, cv_envSchema = cf_envSchema pd\<rparr>"
    have "pipeRepository_findById (cv_pipeId ?vd) d1 \<noteq> None"
      using res Inr by simp
    moreover have "vn \<in> set (map versionNumber (versions d1))"
      using res dup by simp
    ultimately obtain e d' where "createVersion now ?vd d1 = (Inl e, d')" "is_unique_violation e"
        "versions d' = versions d1"
      using createVersion_duplicate [of ?vd vn d1 now] vn by auto
    then show ?thesis
      using None st cr Inr res by (simp add: createPipeWithFile_def)
  qed
qed

text \<open>
  C3. After a successful \<^verbatim>\<open>createPipeWithFile\<close>, a second call with the same name and
  version whose archive is stored fails with a uniqueness violation (SQLSTATE 23505) and
  leaves the \<^verbatim>\<open>versions\<close> table as it was: no second Version row is created.
\<close>

theorem C3_duplicate_version_rejected:
  assumes first: "createPipeWithFile svc now1 pd1 w = (Inr (pipe, version), w1)"
      and same: "cf_name pd2 = cf_name pd1" "cf_version pd2 = cf_version pd1"
      and stored: "fst (storeFile svc (cf_file pd2) (cf_name pd2) (cf_version pd2) (fs w1)) = Inr sf"
  shows "(case fst (createPipeWithFile svc now2 pd2 w1) of
            Inl e \<Rightarrow> is_unique_violation e
          | Inr created \<Rightarrow> False)
       \<and> versions (db (snd (createPipeWithFile svc now2 pd2 w1))) = versions (db w1)"
proof -
  obtain fs' where st: "storeFile svc (cf_file pd2) (cf_name pd2) (cf_version pd2) (fs w1) = (Inr sf, fs')"
    using stored by (cases "storeFile svc (cf_file pd2) (cf_name pd2) (cf_version pd2) (fs w1)") auto
  have vn: "varchar 50 (cf_version pd2) = Inr (versionNumber version)"
    and dup: "versionNumber version \<in> set (map versionNumber (versions (db w1)))"
    using createPipeWithFile_Inr_version [OF first] same by simp_all
  have nm: "getPipeByName (cf_name pd2) (db w1) \<noteq> None \<or> (\<exists>nm. varchar 255 (cf_name pd2) = Inr nm)"
    using createPipeWithFile_Inr_pipe [OF first] same by simp
  obtain e w' where "createPipeWithFile svc now2 pd2 w1 = (Inl e, w')" "is_unique_violation e"
      "versions (db w') = versions (db w1)"
    using second_call_stored [OF vn dup nm st, of now2] by auto
  then show ?thesis
    by simp
qed

theorem C3_duplicate_version_rejected_witness:
  "createPipeWithFile svc0 100 (acme_upload (Ended [1, 2, 3])) empty_world
     = (Inr (acme_pipe, acme_version), acme_world)
   \<and> cf_name (acme_upload (Ended [4])) = cf_name (acme_upload (Ended [1, 2, 3]))
   \<and> cf_version (acme_upload (Ended [4])) = cf_version (acme_upload (Ended [1, 2, 3]))
   \<and> fst (storeFile svc0 (cf_file (acme_upload (Ended [4]))) (cf_name (acme_upload (Ended [4])))
            (cf_version (acme_upload (Ended [4]))) (fs acme_world))
       = Inr \<lparr>fileName = ''acme-1.0.0.tar'', filePath = ''uploads/acme-1.0.0.tar'',
              url = ''http://localhost:3000/files/acme-1.0.0.tar'', sf_size = 1\<rparr>
   \<and> fst (createPipeWithFile svc0 200 (acme_upload (Ended [4])) acme_world)
       = Inl (PostgresError ''23505'' ''versions_version_number_unique'')
   \<and> is_unique_violation (PostgresError ''23505'' ''versions_version_number_unique'')
   \<and> versions (db (snd (createPipeWithFile svc0 200 (acme_upload (Ended [4])) acme_world)))
       = versions (db acme_world)"
proof -
  have s1: "cf_name (acme_upload (Ended [4])) = cf_name (acme_upload (Ended [1, 2, 3]))"
    and s2: "cf_version (acme_upload (Ended [4])) = cf_version (acme_upload (Ended [1, 2, 3]))"
    by (simp_all add: acme_upload_def)
  have st: "fst (storeFile svc0 (cf_file (acme_upload (Ended [4]))) (cf_name (acme_upload (Ended [4])))
            (cf_version (acme_upload (Ended [4]))) (fs acme_world))
       = Inr \<lparr>fileName = ''acme-1.0.0.tar'', filePath = ''uploads/acme-1.0.0.tar'',
              url = ''http://localhost:3000/files/acme-1.0.0.tar'', sf_size = 1\<rparr>"
    by (simp add: example_defs create_defs)
  have r: "fst (createPipeWithFile svc0 200 (acme_upload (Ended [4])) acme_world)
       = Inl (PostgresError ''23505'' ''versions_version_number_unique'')"
    by (simp add: example_defs create_defs)
  show ?thesis
    using s1 s2 st r first_registration
      C3_duplicate_version_rejected [OF first_registration s1 s2 st, of 200]
    by simp
qed

subsection \<open>Download\<close>

lemma orderBy_desc_first:
  assumes "orderBy_desc key rows = y # ys"
  shows "y \<in> set rows \<and> (\<forall>x \<in> set rows. key x \<le> key y)"
proof -
  have s: "sorted (map (\<lambda>r. - key r) (y # ys))"
    using assms sorted_sort_key [of "\<lambda>r. - key r" rows] by (simp add: orderBy_desc_def)
  have m: "set (y # ys) = set rows"
    using assms set_sort [of "\<lambda>r. - key r" rows] by (simp add: orderBy_desc_def)
  have "\<forall>x \<in> set (y # ys). key x \<le> key y"
    using s by auto
  with m show ?thesis by auto
qed

lemma orderBy_desc_Nil: "orderBy_desc key rows = [] \<longleftrightarrow> rows = []"
  using length_sort [of "\<lambda>r. - key r" rows] by (auto simp: orderBy_desc_def simp del: length_sort)

lemma findLatest_Some:
  assumes "v0 \<in> set (versions d)" "pipeId v0 = pid"
  shows "\<exists>v. versionRepository_findLatestByPipeId pid d = Some v
             \<and> v \<in> set (versions d) \<and> pipeId v = pid
             \<and> (\<forall>u \<in> set (versions d). pipeId u = pid \<longrightarrow> v_createdAt u \<le> v_createdAt v)"
proof -
  let ?rows = "filter (\<lambda>v. pipeId v = pid) (versions d)"
  have "?rows \<noteq> []" using assms by (auto simp: filter_empty_conv)
  then obtain y ys where o: "orderBy_desc v_createdAt ?rows = y # ys"
    using orderBy_desc_Nil [of v_createdAt ?rows] by (cases "orderBy_desc v_createdAt ?rows") auto
  from orderBy_desc_first [OF o] have "y \<in> set ?rows" "\<forall>x \<in> set ?rows. v_createdAt x \<le> v_createdAt y"
    by auto
  then show ?thesis
    using o by (auto simp: versionRepository_findLatestByPipeId_def)
qed

text \<open>
  C4. For a pipe found by name that has at least one version, \<^verbatim>\<open>getPipeForDownload\<close>
  without an explicit version selects a version of that pipe whose \<^verbatim>\<open>createdAt\<close> no other
  version of the pipe exceeds, and its answer is decided by that version alone.
\<close>

theorem C4_latest_version_selected:
  assumes "getPipeByName name (db w) = Some pipe"
      and "v0 \<in> set (versions (db w))" and "pipeId v0 = p_id pipe"
      and "truthy version = None"
  shows "\<exists>v. pipeVersion_of pipe version (db w) = Inr (Some v)
             \<and> v \<in> set (versions (db w)) \<and> pipeId v = p_id pipe
             \<and> (\<forall>u \<in> set (versions (db w)). pipeId u = p_id pipe \<longrightarrow> v_createdAt u \<le> v_createdAt v)
             \<and> getPipeForDownload svc name version w =
                 (if assetUrl v = [] \<or> \<not> fileExists svc (archive_name pipe v) (fs w) then Inr None
                  else Inr (Some (pipe, v, getFilePath svc (archive_name pipe v))))"
proof -
  have f: "pipeRepository_findById (p_id pipe) (db w) \<noteq> None"
    using assms(1) findByName_findById by (simp add: getPipeByName_def)
  obtain v where v: "versionRepository_findLatestByPipeId (p_id pipe) (db w) = Some v"
      "v \<in> set (versions (db w))" "pipeId v = p_id pipe"
      "\<forall>u \<in> set (versions (db w)). pipeId u = p_id pipe \<longrightarrow> v_createdAt u \<le> v_createdAt v"
    using findLatest_Some [OF assms(2,3)] by blast
  have sel: "pipeVersion_of pipe version (db w) = Inr (Some v)"
    using f v(1) assms(4) by (auto simp: pipeVersion_of_def getLatestVersionByPipeId_def)
  have "getPipeForDownload svc name version w =
                 (if assetUrl v = [] \<or> \<not> fileExists svc (archive_name pipe v) (fs w) then Inr None
                  else Inr (Some (pipe, v, getFilePath svc (archive_name pipe v))))"
    using assms(1) sel by (simp add: getPipeForDownload_def)
  with sel v show ?thesis by blast
qed

theorem C4_latest_version_selected_witness:
  "getPipeByName ''acme'' (db acme_three) = Some acme_pipe
   \<and> acme_v 1 ''1.0.0'' 100 \<in> set (versions (db acme_three))
   \<and> pipeId (acme_v 1 ''1.0.0'' 100) = p_id acme_pipe
   \<and> truthy None = None
   \<and> pipeVersion_of acme_pipe None (db acme_three) = Inr (Some (acme_v 2 ''2.0.0'' 300))
   \<and> getPipeForDownload svc0 ''acme'' None acme_three
       = Inr (Some (acme_pipe, acme_v 2 ''2.0.0'' 300, ''uploads/acme-2.0.0.tar''))"
proof -
  have h1: "getPipeByName ''acme'' (db acme_three) = Some acme_pipe"
    by (simp add: example_defs getPipeByName_def pipeRepository_findByName_def)
  have h2: "acme_v 1 ''1.0.0'' 100 \<in> set (versions (db acme_three))"
    by (simp add: acme_three_def)
  have h3: "pipeId (acme_v 1 ''1.0.0'' 100) = p_id acme_pipe"
    by (simp add: acme_v_def acme_pipe_def)
  have h4: "truthy None = None"
    by (simp add: truthy_def)
  have e1: "pipeVersion_of acme_pipe None (db acme_three) = Inr (Some (acme_v 2 ''2.0.0'' 300))"
    by code_simp
  have e2: "getPipeForDownload svc0 ''acme'' None acme_three
       = Inr (Some (acme_pipe, acme_v 2 ''2.0.0'' 300, ''uploads/acme-2.0.0.tar''))"
    by code_simp
  show ?thesis
    using h1 h2 h3 h4 e1 e2 C4_latest_version_selected [OF h1 h2 h3 h4, of svc0] by simp
qed

text \<open>
  C5. Once a pipe and a version are selected, \<^verbatim>\<open>getPipeForDownload\<close> answers \<^verbatim>\<open>null\<close>
  exactly when the version's \<^verbatim>\<open>assetUrl\<close> is empty or no file named
  \<^verbatim>\<open>{pipe.name}-{version.versionNumber}.tar\<close> is in the archive store, whatever the database
  holds; and whenever it returns a result, the \<^verbatim>\<open>assetUrl\<close> is not empty and the file exists.
\<close>

theorem C5_download_needs_asset_and_file:
  "(\<forall>pipe v. getPipeByName name (db w) = Some pipe \<and> pipeVersion_of pipe version (db w) = Inr (Some v) \<longrightarrow>
       getPipeForDownload svc name version w =
         (if assetUrl v = [] \<or> \<not> fileExists svc (p_name pipe @ ''-'' @ versionNumber v @ ''.tar'') (fs w)
          then Inr None
          else Inr (Some (pipe, v, getFilePath svc (p_name pipe @ ''-'' @ versionNumber v @ ''.tar'')))))
   \<and> (\<forall>pipe v path. getPipeForDownload svc name version w = Inr (Some (pipe, v, path)) \<longrightarrow>
         assetUrl v \<noteq> [] \<and> fileExists svc (p_name pipe @ ''-'' @ versionNumber v @ ''.tar'') (fs w))"
  by (auto simp: getPipeForDownload_def archive_name_def split: option.splits sum.splits if_splits)

theorem C5_download_needs_asset_and_file_witness:
  "getPipeByName ''acme'' (db acme_no_archive) = Some acme_pipe
   \<and> pipeVersion_of acme_pipe (Some ''1.0.0'') (db acme_no_archive) = Inr (Some acme_version)
   \<and> assetUrl acme_version \<noteq> []
   \<and> \<not> fileExists svc0 (p_name acme_pipe @ ''-'' @ versionNumber acme_version @ ''.tar'') (fs acme_no_archive)
   \<and> getPipeForDownload svc0 ''acme'' (Some ''1.0.0'') acme_no_archive = Inr None
   \<and> getPipeForDownload svc0 ''acme'' (Some ''1.0.0'') acme_world
       = Inr (Some (acme_pipe, acme_version, ''uploads/acme-1.0.0.tar''))
   \<and> fileExists svc0 (p_name acme_pipe @ ''-'' @ versionNumber acme_version @ ''.tar'') (fs acme_world)"
proof -
  have h1: "getPipeByName ''acme'' (db acme_no_archive) = Some acme_pipe"
    by code_simp
  have h2: "pipeVersion_of acme_pipe (Some ''1.0.0'') (db acme_no_archive) = Inr (Some acme_version)"
    by code_simp
  have h3: "assetUrl acme_version \<noteq> []"
    by (simp add: acme_version_def)
  have h4: "\<not> fileExists svc0 (p_name acme_pipe @ ''-'' @ versionNumber acme_version @ ''.tar'') (fs acme_no_archive)"
    by (simp add: fileExists_def example_defs)
  have h5: "getPipeForDownload svc0 ''acme'' (Some ''1.0.0'') acme_world
       = Inr (Some (acme_pipe, acme_version, ''uploads/acme-1.0.0.tar''))"
    by code_simp
  show ?thesis
    using h1 h2 h3 h4 h5
      C5_download_needs_asset_and_file [of "''acme''" acme_no_archive "Some ''1.0.0''" svc0]
      C5_download_needs_asset_and_file [of "''acme''" acme_world "Some ''1.0.0''" svc0]
    by simp
qed




subsection \<open>Version service\<close>

text \<open>
  C8, as the code has it. For a pipe id in the range of the id column (\<^verbatim>\<open>int4\<close>) that no
  pipe has, \<^verbatim>\<open>createVersion\<close>, \<^verbatim>\<open>getVersionsByPipeId\<close> and \<^verbatim>\<open>getLatestVersionByPipeId\<close>
  fail with \<^verbatim>\<open>Pipe not found\<close> before anything is written;
  \<^verbatim>\<open>getVersionByPipeIdAndVersionNumber\<close> makes no such check and returns what the
  repository finds (for a version number the database accepts as text), and the listing
  filtered by that pipe id never fails with \<^verbatim>\<open>Pipe not found\<close>.
\<close>

theorem C8_pipe_existence_checks:
  assumes "int4 pid" and "pg_text vn"
      and "pipeRepository_findById pid d = None"
  shows "createVersion now (vd\<lparr>cv_pipeId := pid\<rparr>) d = (Inl (Error ''Pipe not found''), d)
       \<and> getVersionsByPipeId pid d = Inl (Error ''Pipe not found'')
       \<and> getLatestVersionByPipeId pid d = Inl (Error ''Pipe not found'')
       \<and> getVersionByPipeIdAndVersionNumber pid vn d
           = Inr (versionRepository_findByPipeIdAndVersionNumber pid vn d)
       \<and> getVersions (opts\<lparr>vq_pipeId := Some pid\<rparr>) d \<noteq> Inl (Error ''Pipe not found'')"
  using assms
  by (auto simp: createVersion_def getVersionsByPipeId_def getLatestVersionByPipeId_def
        getVersionByPipeIdAndVersionNumber_def getVersions_def versionRepository_findMany_def
        versionRepository_count_def limit_offset_def Let_def
      split: sum.splits list.splits if_splits)

theorem C8_pipe_existence_checks_witness:
  "int4 7 \<and> pg_text ''1.0.0''
   \<and> pipeRepository_findById 7 (db acme_world) = None
   \<and> createVersion 500
        \<lparr>cv_pipeId = 7, cv_versionNumber = ''3.0.0'', cv_assetUrl = ''u'', cv_envSchema = ''{}''\<rparr>
        (db acme_world) = (Inl (Error ''Pipe not found''), db acme_world)
   \<and> getVersionsByPipeId 7 (db acme_world) = Inl (Error ''Pipe not found'')
   \<and> getLatestVersionByPipeId 7 (db acme_world) = Inl (Error ''Pipe not found'')
   \<and> getVersionByPipeIdAndVersionNumber 7 ''1.0.0'' (db acme_world) = Inr None
   \<and> getVersions \<lparr>vq_page = None, vq_limit = None, vq_pipeId = Some 7\<rparr> (db acme_world)
       \<noteq> Inl (Error ''Pipe not found'')"
proof -
  have r: "int4 7"
    by (simp add: int4_def)
  have t: "pg_text ''1.0.0''"
    by (simp add: pg_text_def)
  have h: "pipeRepository_findById 7 (db acme_world) = None"
    by (simp add: pipeRepository_findById_def example_defs)
  have e: "versionRepository_findByPipeIdAndVersionNumber 7 ''1.0.0'' (db acme_world) = None"
    by (simp add: versionRepository_findByPipeIdAndVersionNumber_def example_defs)
  show ?thesis
    using r t h e
      C8_pipe_existence_checks [OF r t h, of 500
        "\<lparr>cv_pipeId = 7, cv_versionNumber = ''3.0.0'', cv_assetUrl = ''u'', cv_envSchema = ''{}''\<rparr>"
        "\<lparr>vq_page = None, vq_limit = None, vq_pipeId = Some 7\<rparr>"]
    by simp
qed

text \<open>
  The claim as stated fails for \<^verbatim>\<open>getVersionByPipeIdAndVersionNumber\<close>: asked about a pipe
  that does not exist, it answers \<^verbatim>\<open>null\<close> and raises nothing.
\<close>

theorem C8_lookup_without_check_counterexample:
  "int4 7 \<and> pg_text ''1.0.0''
   \<and> pipeRepository_findById 7 (db acme_world) = None
   \<and> getVersionByPipeIdAndVersionNumber 7 ''1.0.0'' (db acme_world) = Inr None
   \<and> getVersionByPipeIdAndVersionNumber 7 ''1.0.0'' (db acme_world) \<noteq> Inl (Error ''Pipe not found'')"
  by (simp add: getVersionByPipeIdAndVersionNumber_def pipeRepository_findById_def
        versionRepository_findByPipeIdAndVersionNumber_def example_defs int4_def pg_text_def)

subsection \<open>Listing\<close>

text \<open>
  C6, evaluated. With twenty-five pipes stored and no search filter, \<^verbatim>\<open>count\<close> returns 1, the
  \<^verbatim>\<open>id\<close> of the first row, not the number of rows; \<^verbatim>\<open>getPipes\<close> for the second page of ten
  then reports \<^verbatim>\<open>totalCount = 1\<close> and \<^verbatim>\<open>totalPages = 1\<close>.
\<close>

theorem C6_count_returns_first_id:
  "length (where_search (pq_search (page_of_ten 2 False)) id (pipes db25)) = 25
   \<and> pipeRepository_count (page_of_ten 2 False) db25 = Inr 1
   \<and> map_sum id (\<lambda>r. (totalCount r, totalPages r)) (getPipes (page_of_ten 2 False) db25)
       = Inr (1, Number 1)"
  by code_simp

text \<open>
  C9, evaluated. With the same twenty-five pipes the grouped list has twenty-five entries;
  the first page of ten holds the ten newest pipes, and the second and the third page are
  empty, because the rows are fetched from offset \<^verbatim>\<open>(page - 1) * limit * 10\<close> and the grouped
  list is then sliced from \<^verbatim>\<open>(page - 1) * limit\<close> once more.
\<close>

theorem C9_later_pages_empty:
  "length (fold pipeMap_row (orderBy_join (leftJoin db25)) []) = 25
   \<and> map_sum id (map p_id) (findManyWithVersions (page_of_ten 1 True) db25)
       = Inr [25, 24, 23, 22, 21, 20, 19, 18, 17, 16]
   \<and> findManyWithVersions (page_of_ten 2 True) db25 = Inr []
   \<and> findManyWithVersions (page_of_ten 3 True) db25 = Inr []"
  by code_simp

end
